theory Spec2Isabelle
  imports Main
begin

section \<open>Values shared by the pipelines\<close>

text \<open>
  The two pipelines of the program (\<^verbatim>\<open>rag.py\<close>) talk to three remote services: an
  embedding client \<^verbatim>\<open>vo\<close>, a MongoDB collection with an Atlas vector-search index, and
  a generative model \<^verbatim>\<open>llm\<close>. Each of them can raise. An exception is a value here;
  \<open>str_exn\<close> is Python's \<^verbatim>\<open>str(e)\<close>. The transcript that \<^verbatim>\<open>transcribe_audio\<close>
  produces is an input of the ingestion.
\<close>

datatype exn = RemoteError string | IndexError | TypeError string

fun str_exn :: "exn \<Rightarrow> string" where
  "str_exn (RemoteError m) = m"
| "str_exn IndexError = ''list index out of range''"
| "str_exn (TypeError m) = m"

text \<open>
  The Streamlit calls \<^verbatim>\<open>st.info\<close>, \<^verbatim>\<open>st.success\<close>, \<^verbatim>\<open>st.warning\<close> and \<^verbatim>\<open>st.error\<close>
  are the program's signals to its user. They are collected, in order, in a log.
\<close>

datatype level = Info | Success | Warning | Error

type_synonym ui_log = "(level \<times> string) list"

definition levels :: "ui_log \<Rightarrow> level list" where
  "levels log = map fst log"

text \<open>
  Python strings are modelled as \<open>string\<close>. The program's fixed messages are Chinese;
  each is given by the UTF-8 bytes of the literal in the source, with the source line and
  an English gloss.
\<close>

definition msg_inserted_prefix :: string where
  \<comment> \<open>the text before the count in the message of line 74 (inserted successfully)\<close>
  "msg_inserted_prefix = map char_of
    ([0xE5, 0xB7, 0xB2, 0xE6, 0x88, 0x90, 0xE5, 0x8A, 0x9F, 0xE6, 0x8F, 0x92,
     0xE5, 0x85, 0xA5, 0x20] :: nat list)"

definition msg_inserted_suffix :: string where
  \<comment> \<open>the text after the count in the message of line 74 (documents)\<close>
  "msg_inserted_suffix = map char_of
    ([0x20, 0xE5, 0x80, 0x8B, 0xE6, 0x96, 0x87, 0xE6, 0xAA, 0x94] :: nat list)"

definition msg_insert_error :: string where
  \<comment> \<open>prefix of the error message of line 76 (error while inserting documents: )\<close>
  "msg_insert_error = map char_of
    ([0xE6, 0x8F, 0x92, 0xE5, 0x85, 0xA5, 0xE6, 0x96, 0x87, 0xE6, 0xAA, 0x94,
     0xE6, 0x99, 0x82, 0xE7, 0x99, 0xBC, 0xE7, 0x94, 0x9F, 0xE9, 0x8C, 0xAF,
     0xE8, 0xAA, 0xA4, 0x3A, 0x20] :: nat list)"

definition msg_index_created :: string where
  \<comment> \<open>message of line 101 (vector index created)\<close>
  "msg_index_created = map char_of
    ([0xE5, 0xB7, 0xB2, 0xE5, 0x89, 0xB5, 0xE5, 0xBB, 0xBA, 0xE5, 0x90, 0x91,
     0xE9, 0x87, 0x8F, 0xE7, 0xB4, 0xA2, 0xE5, 0xBC, 0x95] :: nat list)"

definition msg_index_exists :: string where
  \<comment> \<open>message of line 103 (vector index already exists)\<close>
  "msg_index_exists = map char_of
    ([0xE5, 0x90, 0x91, 0xE9, 0x87, 0x8F, 0xE7, 0xB4, 0xA2, 0xE5, 0xBC, 0x95,
     0xE5, 0xB7, 0xB2, 0xE5, 0xAD, 0x98, 0xE5, 0x9C, 0xA8] :: nat list)"

definition msg_index_error :: string where
  \<comment> \<open>prefix of the warning of line 106 (error during the index operation: )\<close>
  "msg_index_error = map char_of
    ([0xE7, 0xB4, 0xA2, 0xE5, 0xBC, 0x95, 0xE6, 0x93, 0x8D, 0xE4, 0xBD, 0x9C,
     0xE6, 0x99, 0x82, 0xE7, 0x99, 0xBC, 0xE7, 0x94, 0x9F, 0xE9, 0x8C, 0xAF,
     0xE8, 0xAA, 0xA4, 0x3A, 0x20] :: nat list)"

definition msg_data_saved :: string where
  \<comment> \<open>message of line 107 (data stored, the index may have to be created later)\<close>
  "msg_data_saved = map char_of
    ([0xE6, 0x95, 0xB8, 0xE6, 0x93, 0x9A, 0xE5, 0xB7, 0xB2, 0xE6, 0x88, 0x90,
     0xE5, 0x8A, 0x9F, 0xE5, 0x84, 0xB2, 0xE5, 0xAD, 0x98, 0xEF, 0xBC, 0x8C,
     0xE7, 0xB4, 0xA2, 0xE5, 0xBC, 0x95, 0xE5, 0x8F, 0xAF, 0xE8, 0x83, 0xBD,
     0xE9, 0x9C, 0x80, 0xE8, 0xA6, 0x81, 0xE7, 0xA8, 0x8D, 0xE5, 0xBE, 0x8C,
     0xE5, 0x89, 0xB5, 0xE5, 0xBB, 0xBA] :: nat list)"

definition msg_search_error :: string where
  \<comment> \<open>prefix of the answer of line 148 (error while searching: )\<close>
  "msg_search_error = map char_of
    ([0xE6, 0x90, 0x9C, 0xE7, 0xB4, 0xA2, 0xE6, 0x99, 0x82, 0xE7, 0x99, 0xBC,
     0xE7, 0x94, 0x9F, 0xE9, 0x8C, 0xAF, 0xE8, 0xAA, 0xA4, 0x3A, 0x20] :: nat list)"

definition msg_not_found :: string where
  \<comment> \<open>the answer of line 151 (an apology: no relevant information was found in the database)\<close>
  "msg_not_found = map char_of
    ([0xE6, 0x8A, 0xB1, 0xE6, 0xAD, 0x89, 0xEF, 0xBC, 0x8C, 0xE6, 0x88, 0x91,
     0xE5, 0x9C, 0xA8, 0xE8, 0xB3, 0x87, 0xE6, 0x96, 0x99, 0xE5, 0xBA, 0xAB,
     0xE4, 0xB8, 0xAD, 0xE6, 0x89, 0xBE, 0xE4, 0xB8, 0x8D, 0xE5, 0x88, 0xB0,
     0xE7, 0x9B, 0xB8, 0xE9, 0x97, 0x9C, 0xE8, 0xB3, 0x87, 0xE8, 0xA8, 0x8A,
     0xE3, 0x80, 0x82] :: nat list)"

definition msg_generate_error :: string where
  \<comment> \<open>prefix of the answer of line 173 (error while generating the answer: )\<close>
  "msg_generate_error = map char_of
    ([0xE7, 0x94, 0x9F, 0xE6, 0x88, 0x90, 0xE5, 0x9B, 0x9E, 0xE7, 0xAD, 0x94,
     0xE6, 0x99, 0x82, 0xE7, 0x99, 0xBC, 0xE7, 0x94, 0x9F, 0xE9, 0x8C, 0xAF,
     0xE8, 0xAA, 0xA4, 0x3A, 0x20] :: nat list)"

definition msg_index_dropped :: string where
  \<comment> \<open>message of line 209 (old index deleted)\<close>
  "msg_index_dropped = map char_of
    ([0xE5, 0xB7, 0xB2, 0xE5, 0x88, 0xAA, 0xE9, 0x99, 0xA4, 0xE8, 0x88, 0x8A,
     0xE7, 0xB4, 0xA2, 0xE5, 0xBC, 0x95] :: nat list)"

definition msg_index_absent :: string where
  \<comment> \<open>message of line 211 (the index does not exist or was already deleted)\<close>
  "msg_index_absent = map char_of
    ([0xE7, 0xB4, 0xA2, 0xE5, 0xBC, 0x95, 0xE4, 0xB8, 0x8D, 0xE5, 0xAD, 0x98,
     0xE5, 0x9C, 0xA8, 0xE6, 0x88, 0x96, 0xE5, 0xB7, 0xB2, 0xE8, 0xA2, 0xAB,
     0xE5, 0x88, 0xAA, 0xE9, 0x99, 0xA4] :: nat list)"

definition msg_cleaned :: string where
  \<comment> \<open>message of line 217 (database cleaned, upload the audio file again)\<close>
  "msg_cleaned = map char_of
    ([0xE8, 0xB3, 0x87, 0xE6, 0x96, 0x99, 0xE5, 0xBA, 0xAB, 0xE5, 0xB7, 0xB2,
     0xE6, 0xB8, 0x85, 0xE7, 0x90, 0x86, 0xE5, 0xAE, 0x8C, 0xE6, 0x88, 0x90,
     0xEF, 0xBC, 0x8C, 0xE8, 0xAB, 0x8B, 0xE9, 0x87, 0x8D, 0xE6, 0x96, 0xB0,
     0xE4, 0xB8, 0x8A, 0xE5, 0x82, 0xB3, 0xE9, 0x9F, 0xB3, 0xE8, 0xA8, 0x8A,
     0xE6, 0xAA, 0x94, 0xE6, 0xA1, 0x88] :: nat list)"

definition msg_clean_error :: string where
  \<comment> \<open>prefix of the error message of line 228 (error while cleaning the database: )\<close>
  "msg_clean_error = map char_of
    ([0xE6, 0xB8, 0x85, 0xE7, 0x90, 0x86, 0xE8, 0xB3, 0x87, 0xE6, 0x96, 0x99,
     0xE5, 0xBA, 0xAB, 0xE6, 0x99, 0x82, 0xE7, 0x99, 0xBC, 0xE7, 0x94, 0x9F,
     0xE9, 0x8C, 0xAF, 0xE8, 0xAA, 0xA4, 0x3A, 0x20] :: nat list)"

text \<open>Decimal rendering of a count inside an f-string.\<close>

fun str_nat :: "nat \<Rightarrow> string" where
  "str_nat n =
     (if n < 10 then [char_of (48 + n)]
      else str_nat (n div 10) @ [char_of (48 + n mod 10)])"

declare str_nat.simps [simp del]

definition msg_inserted :: "nat \<Rightarrow> string" where
  \<comment> \<open>line 74, the f-string around \<^verbatim>\<open>len(docs)\<close>\<close>
  "msg_inserted n = msg_inserted_prefix @ str_nat n @ msg_inserted_suffix"

text \<open>\<^verbatim>\<open>sep.join(xs)\<close> and \<^verbatim>\<open>xs.insert(i, x)\<close> of Python, the latter for \<open>0 \<le> i\<close>.\<close>

fun join :: "string \<Rightarrow> string list \<Rightarrow> string" where
  "join sep [] = []"
| "join sep [x] = x"
| "join sep (x # y # ys) = x @ sep @ join sep (y # ys)"

definition list_insert :: "nat \<Rightarrow> 'a \<Rightarrow> 'a list \<Rightarrow> 'a list" where
  "list_insert i x xs = take i xs @ [x] @ drop i xs"

section \<open>Data model\<close>

text \<open>
  One item of \<^verbatim>\<open>speaker_transcripts\<close>: the dictionary with the keys \<^verbatim>\<open>speaker\<close>
  and \<^verbatim>\<open>text\<close> that \<^verbatim>\<open>transcribe_audio\<close> builds for each utterance.
\<close>

record transcript_item =
  speaker :: string
  item_text :: string

text \<open>
  A stored document (a Segment). The embedding is a float vector in the program; its type
  is left open (\<open>'v\<close>), since nothing the program does looks inside a vector. The key
  \<^verbatim>\<open>session_id\<close> is optional: \<^verbatim>\<open>rag_practice.py\<close> writes documents without it into the
  same collection.
\<close>

record 'v doc =
  doc_text :: string
  doc_embedding :: 'v
  doc_session_id :: "string option"

text \<open>
  A search result after the \<^verbatim>\<open>$project\<close> stage: the keys \<^verbatim>\<open>text\<close>, \<^verbatim>\<open>session_id\<close>
  (when the document has one) and \<^verbatim>\<open>score\<close>. The score is the store's similarity value,
  of an ordered type \<open>'s\<close>.
\<close>

record 's hit =
  hit_text :: string
  hit_session_id :: "string option"
  hit_score :: 's

text \<open>The \<^verbatim>\<open>SearchIndexModel\<close> of lines 81-94.\<close>

record vector_field =
  fld_type :: string
  fld_numDimensions :: nat
  fld_path :: string
  fld_similarity :: string

record search_index =
  idx_fields :: "vector_field list"
  idx_name :: string
  idx_type :: string

definition search_index_model :: search_index where
  "search_index_model =
     \<lparr>idx_fields = [\<lparr>fld_type = ''vector'', fld_numDimensions = 1024,
                      fld_path = ''embedding'', fld_similarity = ''cosine''\<rparr>],
      idx_name = ''vector_index'',
      idx_type = ''vectorSearch''\<rparr>"

section \<open>The collection\<close>

text \<open>
  The collection handle is remote state: the stored documents and the search indexes.
  Whether a call on the handle raises is decided outside the program (connectivity,
  validation by the driver or the server), so the handle also carries, for each operation
  the program uses, the exception that the next call of that operation raises, if any.
  A call that raises is taken to leave the store as it was; the results below are about
  calls that succeed or about what the program does with the exception, not about the
  store after a failed write. \<open>similarity_fn q v\<close> is the score the
  store gives a stored vector \<open>v\<close> for the query vector \<open>q\<close> (cosine similarity for the
  index the program creates); it is computed by the database.
\<close>

datatype operation =
  InsertMany | ListSearchIndexes | CreateSearchIndex | Aggregate | DeleteMany | DropSearchIndex

record ('v, 's) collection =
  documents :: "'v doc list"
  search_indexes :: "search_index list"
  failures :: "operation \<Rightarrow> exn option"
  similarity_fn :: "'v \<Rightarrow> 'v \<Rightarrow> 's"

text \<open>
  The driver's \<^verbatim>\<open>insert_many\<close> refuses an empty list of documents with a
  \<^verbatim>\<open>TypeError\<close>, before it contacts the server.
\<close>

definition insert_many ::
  "'v doc list \<Rightarrow> ('v, 's) collection \<Rightarrow> exn + ('v, 's) collection" where
  "insert_many docs c =
     (if docs = [] then Inl (TypeError ''documents must be a non-empty list'')
      else case failures c InsertMany of
             Some e \<Rightarrow> Inl e
           | None \<Rightarrow> Inr (c\<lparr>documents := documents c @ docs\<rparr>))"

definition list_search_indexes :: "('v, 's) collection \<Rightarrow> exn + search_index list" where
  "list_search_indexes c =
     (case failures c ListSearchIndexes of
        Some e \<Rightarrow> Inl e
      | None \<Rightarrow> Inr (search_indexes c))"

text \<open>The server refuses a second index of a name that is already taken.\<close>

definition create_search_index ::
  "search_index \<Rightarrow> ('v, 's) collection \<Rightarrow> exn + ('v, 's) collection" where
  "create_search_index model c =
     (case failures c CreateSearchIndex of
        Some e \<Rightarrow> Inl e
      | None \<Rightarrow>
          if idx_name model \<in> set (map idx_name (search_indexes c))
          then Inl (RemoteError ''Duplicate Index'')
          else Inr (c\<lparr>search_indexes := search_indexes c @ [model]\<rparr>))"

text \<open>\<^verbatim>\<open>delete_many({})\<close>: the empty filter selects every document.\<close>

definition delete_many :: "('v, 's) collection \<Rightarrow> exn + ('v, 's) collection" where
  "delete_many c =
     (case failures c DeleteMany of
        Some e \<Rightarrow> Inl e
      | None \<Rightarrow> Inr (c\<lparr>documents := []\<rparr>))"

text \<open>
  Dropping removes the index of the given name. A server that raises when there is no
  such index is the case \<open>failures c DropSearchIndex = Some e\<close>.
\<close>

definition drop_search_index ::
  "string \<Rightarrow> ('v, 's) collection \<Rightarrow> exn + ('v, 's) collection" where
  "drop_search_index nm c =
     (case failures c DropSearchIndex of
        Some e \<Rightarrow> Inl e
      | None \<Rightarrow> Inr (c\<lparr>search_indexes := filter (\<lambda>idx. idx_name idx \<noteq> nm) (search_indexes c)\<rparr>))"

subsection \<open>Aggregation pipelines\<close>

text \<open>
  The three stages the program uses, with the arguments it gives them:
  \<^verbatim>\<open>$vectorSearch\<close> (index, queryVector, path, limit, exact), \<^verbatim>\<open>$match\<close> on
  \<^verbatim>\<open>session_id\<close>, and the \<^verbatim>\<open>$project\<close> of lines 130-135.
\<close>

datatype 'v stage =
  VectorSearch string 'v string nat bool
| Match string
| Project

text \<open>
  \<^verbatim>\<open>$vectorSearch\<close> with \<^verbatim>\<open>exact: True\<close> scores every document of the collection
  against the query vector and passes on the \<open>limit\<close> best, best first, each with its
  score. Without the named index it passes on nothing.
\<close>

definition vector_search ::
  "('v, 's::linorder) collection \<Rightarrow> string \<Rightarrow> 'v \<Rightarrow> nat \<Rightarrow> ('v doc \<times> 's) list" where
  "vector_search c index q limit =
     (if index \<in> set (map idx_name (search_indexes c))
      then take limit (rev (sort_key snd
             (map (\<lambda>d. (d, similarity_fn c q (doc_embedding d))) (documents c))))
      else [])"

definition project :: "'v doc \<times> 's \<Rightarrow> 's hit" where
  "project r = \<lparr>hit_text = doc_text (fst r), hit_session_id = doc_session_id (fst r),
                hit_score = snd r\<rparr>"

text \<open>
  The stages after the first run in the order of the list, each on the output of the one
  before it. \<^verbatim>\<open>$match\<close> keeps the documents whose \<^verbatim>\<open>session_id\<close> equals the given
  value; \<^verbatim>\<open>$project\<close> ends the pipelines of this program.
\<close>

fun run_stages :: "'v stage list \<Rightarrow> ('v doc \<times> 's) list \<Rightarrow> exn + 's hit list" where
  "run_stages [Project] rows = Inr (map project rows)"
| "run_stages (Match sid # rest) rows =
     run_stages rest (filter (\<lambda>r. doc_session_id (fst r) = Some sid) rows)"
| "run_stages _ rows = Inl (RemoteError ''unsupported pipeline'')"

definition aggregate ::
  "('v, 's::linorder) collection \<Rightarrow> 'v stage list \<Rightarrow> exn + 's hit list" where
  "aggregate c pipeline =
     (case failures c Aggregate of
        Some e \<Rightarrow> Inl e
      | None \<Rightarrow>
          (case pipeline of
             VectorSearch index q path limit exact # rest \<Rightarrow>
               run_stages rest (vector_search c index q limit)
           | _ \<Rightarrow> Inl (RemoteError ''unsupported pipeline'')))"

section \<open>The embedding client and the language model\<close>

text \<open>
  \<^verbatim>\<open>vo.embed(texts, model, input_type).embeddings\<close>: the vectors, or the exception the
  client raises.
\<close>

type_synonym 'v embedder = "string list \<Rightarrow> string \<Rightarrow> string \<Rightarrow> exn + 'v list"

text \<open>
  The model handle: \<open>respond\<close> is what \<^verbatim>\<open>generate_content\<close> followed by
  \<^verbatim>\<open>response.candidates[0].content.parts[0].text\<close> yields for a prompt (the text, or the
  exception raised on the way), and \<open>prompts\<close> records every prompt sent to the model.
\<close>

record llm =
  respond :: "string \<Rightarrow> exn + string"
  prompts :: "string list"

definition generate_content :: "llm \<Rightarrow> string \<Rightarrow> (exn + string) \<times> llm" where
  "generate_content m prompt = (respond m prompt, m\<lparr>prompts := prompts m @ [prompt]\<rparr>)"

section \<open>Ingestion: \<^verbatim>\<open>create_embeddings_and_store\<close>\<close>

text \<open>
  Lines 79-107, the index step: list the search indexes, look for one named
  \<^verbatim>\<open>vector_index\<close>, create it when there is none. Any exception of the step is caught
  and reported with \<^verbatim>\<open>st.warning\<close>. The result is the collection and the messages shown.
\<close>

definition ensure_vector_index :: "('v, 's) collection \<Rightarrow> ('v, 's) collection \<times> ui_log" where
  "ensure_vector_index c =
     (case list_search_indexes c of
        Inl e \<Rightarrow> (c, [(Warning, msg_index_error @ str_exn e), (Info, msg_data_saved)])
      | Inr existing_indexes \<Rightarrow>
          let vector_index_exists = list_ex (\<lambda>idx. idx_name idx = ''vector_index'') existing_indexes
          in if \<not> vector_index_exists
             then (case create_search_index search_index_model c of
                     Inl e \<Rightarrow> (c, [(Warning, msg_index_error @ str_exn e), (Info, msg_data_saved)])
                   | Inr c' \<Rightarrow> (c', [(Info, msg_index_created)]))
             else (c, [(Info, msg_index_exists)]))"

text \<open>
  Lines 51-109. \<open>new_uuid\<close> is the string that \<^verbatim>\<open>str(uuid.uuid4())\<close> yields in this call.
  The result is what the call returns or raises, the collection afterwards, and the
  messages shown. An exception of the embedding call or of \<^verbatim>\<open>insert_many\<close> leaves the
  function (the latter after \<^verbatim>\<open>st.error\<close>).
\<close>

definition segment_text :: "transcript_item \<Rightarrow> string" where
  \<comment> \<open>the f-string of line 53\<close>
  "segment_text item = speaker item @ '': '' @ item_text item"

definition build_docs :: "string list \<Rightarrow> 'v list \<Rightarrow> string \<Rightarrow> 'v doc list" where
  \<comment> \<open>lines 64-69, the loop over \<^verbatim>\<open>zip(speaker_sents, embeds)\<close>\<close>
  "build_docs speaker_sents embeds session_id =
     map (\<lambda>(transcript, embed).
            \<lparr>doc_text = transcript, doc_embedding = embed, doc_session_id = Some session_id\<rparr>)
         (zip speaker_sents embeds)"

definition create_embeddings_and_store ::
  "transcript_item list \<Rightarrow> 'v embedder \<Rightarrow> ('v, 's) collection \<Rightarrow> string
     \<Rightarrow> (exn + string \<times> nat) \<times> ('v, 's) collection \<times> ui_log" where
  "create_embeddings_and_store speaker_transcripts vo c new_uuid =
     (let speaker_sents = map segment_text speaker_transcripts
      in case vo speaker_sents ''voyage-2'' ''document'' of
           Inl e \<Rightarrow> (Inl e, c, [])
         | Inr embeds \<Rightarrow>
             let session_id = new_uuid;
                 docs = build_docs speaker_sents embeds session_id
             in (case insert_many docs c of
                   Inl e \<Rightarrow> (Inl e, c, [(Error, msg_insert_error @ str_exn e)])
                 | Inr c1 \<Rightarrow>
                     let (c2, log2) = ensure_vector_index c1
                     in (Inr (session_id, length docs), c2,
                         (Info, msg_inserted (length docs)) # log2)))"

section \<open>Query: \<^verbatim>\<open>search_and_generate_response\<close>\<close>

text \<open>
  Lines 119-142: the pipeline is built with two stages, and the \<^verbatim>\<open>$match\<close> stage is
  inserted at position 1 when \<^verbatim>\<open>session_id\<close> is truthy (neither \<^verbatim>\<open>None\<close> nor the
  empty string).
\<close>

definition search_pipeline :: "'v \<Rightarrow> string option \<Rightarrow> 'v stage list" where
  "search_pipeline query_embed session_id =
     (let pipeline = [VectorSearch ''vector_index'' query_embed ''embedding'' 5 True, Project]
      in case session_id of
           None \<Rightarrow> pipeline
         | Some sid \<Rightarrow> if sid \<noteq> [] then list_insert 1 (Match sid) pipeline else pipeline)"

definition make_prompt :: "string \<Rightarrow> string \<Rightarrow> string" where
  \<comment> \<open>lines 155-164\<close>
  "make_prompt merged_context query =
     ''Context information is below.'' @ [CHR 0x0A] @
     ''----------------------- '' @ [CHR 0x0A] @
     merged_context @ [CHR 0x0A] @
     ''----------------------- '' @ [CHR 0x0A] @
     ''Given the context information above, think step by step '' @
     ''to answer the query in a crisp manner. Please answer in Traditional Chinese.'' @ [CHR 0x0A] @
     ''Query: '' @ query @ [CHR 0x0A] @
     ''Answer: ''"

definition context_separator :: string where
  \<comment> \<open>line 153: two newlines, three dashes, two newlines\<close>
  "context_separator = [CHR 0x0A, CHR 0x0A] @ ''---'' @ [CHR 0x0A, CHR 0x0A]"

text \<open>
  Lines 112-175. The result is what the call returns (the answer and the results) or the
  exception that leaves it, with the model handle afterwards. The embedding call and the
  \<^verbatim>\<open>[0]\<close> on its result stand before the first \<^verbatim>\<open>try\<close>.
\<close>

definition search_and_generate_response ::
  "string \<Rightarrow> 'v embedder \<Rightarrow> ('v, 's::linorder) collection \<Rightarrow> llm \<Rightarrow> string option
     \<Rightarrow> (exn + string \<times> 's hit list) \<times> llm" where
  "search_and_generate_response query vo c m session_id =
     (case vo [query] ''voyage-2'' ''query'' of
        Inl e \<Rightarrow> (Inl e, m)
      | Inr embeddings \<Rightarrow>
          (case embeddings of
             [] \<Rightarrow> (Inl IndexError, m)
           | query_embed # _ \<Rightarrow>
               (case aggregate c (search_pipeline query_embed session_id) of
                  Inl e \<Rightarrow> (Inr (msg_search_error @ str_exn e, []), m)
                | Inr results \<Rightarrow>
                    if results = [] then (Inr (msg_not_found, []), m)
                    else
                      let merged_context = join context_separator (map hit_text results);
                          prompt = make_prompt merged_context query
                      in (case generate_content m prompt of
                            (Inr answer, m') \<Rightarrow> (Inr (answer, results), m')
                          | (Inl e, m') \<Rightarrow> (Inr (msg_generate_error @ str_exn e, results), m')))))"

section \<open>Reset: the clean-up button of \<^verbatim>\<open>main\<close>\<close>

text \<open>
  \<^verbatim>\<open>st.session_state\<close> with the three keys the program uses; a key that is absent is
  \<open>None\<close>. A chat turn is a role and a content.
\<close>

record session_state =
  ss_session_id :: "string option"
  ss_transcripts :: "transcript_item list option"
  ss_chat_history :: "(string \<times> string) list option"

text \<open>
  Lines 200-228, the body run when the button is pressed: delete every document, drop the
  index (an exception of the drop is caught and reported with \<^verbatim>\<open>st.info\<close>), report
  success, forget the session. An exception of \<^verbatim>\<open>delete_many\<close> skips the rest and is
  reported with \<^verbatim>\<open>st.error\<close>. The pause of line 215 has no counterpart here.
\<close>

definition main_reset ::
  "('v, 's) collection \<Rightarrow> session_state \<Rightarrow> ('v, 's) collection \<times> session_state \<times> ui_log" where
  "main_reset c ss =
     (case delete_many c of
        Inl e \<Rightarrow> (c, ss, [(Error, msg_clean_error @ str_exn e)])
      | Inr c1 \<Rightarrow>
          let (c2, log2) =
                (case drop_search_index ''vector_index'' c1 of
                   Inr c' \<Rightarrow> (c', [(Info, msg_index_dropped)])
                 | Inl e \<Rightarrow> (c1, [(Info, msg_index_absent)]))
          in (c2,
              ss\<lparr>ss_session_id := None, ss_transcripts := None, ss_chat_history := None\<rparr>,
              log2 @ [(Success, msg_cleaned)]))"

section \<open>The search of the specification, for comparison\<close>

text \<open>
  The specification's \<^verbatim>\<open>search(query_vector, top_k, session_id)\<close>, following its
  words: with a session given, the segments are filtered to that session first, then
  ranked by descending score and cut to \<open>top_k\<close>.
\<close>

definition spec_search ::
  "('v, 's::linorder) collection \<Rightarrow> 'v \<Rightarrow> nat \<Rightarrow> string option \<Rightarrow> 's hit list" where
  "spec_search c q top_k session_id =
     (let candidates =
            (case session_id of
               None \<Rightarrow> documents c
             | Some sid \<Rightarrow> filter (\<lambda>d. doc_session_id d = Some sid) (documents c))
      in map project (take top_k (rev (sort_key snd
           (map (\<lambda>d. (d, similarity_fn c q (doc_embedding d))) candidates)))))"

section \<open>Example inputs\<close>

text \<open>
  Small concrete services, used to run the functions: vectors are integers, the score of
  a stored vector is the negated distance to the query vector, and the embedding of a text
  is its length.
\<close>

definition ex_similarity :: "int \<Rightarrow> int \<Rightarrow> int" where
  "ex_similarity q v = - \<bar>q - v\<bar>"

definition ex_vo :: "int embedder" where
  "ex_vo texts model input_type = Inr (map (\<lambda>t. int (length t)) texts)"

definition ex_vo_short :: "int embedder" where
  "ex_vo_short texts model input_type = Inr (map (\<lambda>t. int (length t)) (take 1 texts))"

definition ex_vo_none :: "int embedder" where
  "ex_vo_none texts model input_type = Inr []"

definition ex_vo_down :: "int embedder" where
  "ex_vo_down texts model input_type = Inl (RemoteError ''embedding service unreachable'')"

definition ex_llm :: llm where
  "ex_llm = \<lparr>respond = (\<lambda>prompt. Inr ''an answer''), prompts = []\<rparr>"

definition ex_llm_down :: llm where
  "ex_llm_down = \<lparr>respond = (\<lambda>prompt. Inl (RemoteError ''model unavailable'')), prompts = []\<rparr>"

definition no_failures :: "operation \<Rightarrow> exn option" where
  "no_failures operation = None"

definition ex_doc :: "string \<Rightarrow> int \<Rightarrow> string \<Rightarrow> int doc" where
  "ex_doc t v sid = \<lparr>doc_text = t, doc_embedding = v, doc_session_id = Some sid\<rparr>"

definition ex_transcripts :: "transcript_item list" where
  "ex_transcripts = [\<lparr>speaker = ''Speaker A'', item_text = ''hello''\<rparr>,
                     \<lparr>speaker = ''Speaker B'', item_text = ''world''\<rparr>]"

text \<open>An empty collection without an index.\<close>

definition ex_empty :: "(int, int) collection" where
  "ex_empty = \<lparr>documents = [], search_indexes = [], failures = no_failures,
               similarity_fn = ex_similarity\<rparr>"

text \<open>Two sessions with one segment each, indexed.\<close>

definition ex_two_sessions :: "(int, int) collection" where
  "ex_two_sessions =
     \<lparr>documents = [ex_doc ''Speaker A: hello'' 1 ''A'', ex_doc ''Speaker B: world'' 2 ''B''],
      search_indexes = [search_index_model], failures = no_failures,
      similarity_fn = ex_similarity\<rparr>"

text \<open>
  Session B holds five segments that score better for the query vector 1 than the one
  segment of session A.
\<close>

definition ex_crowded :: "(int, int) collection" where
  "ex_crowded =
     \<lparr>documents = [ex_doc ''b1'' 1 ''B'', ex_doc ''b2'' 2 ''B'', ex_doc ''b3'' 3 ''B'',
                   ex_doc ''b4'' 4 ''B'', ex_doc ''b5'' 5 ''B'', ex_doc ''a1'' 9 ''A''],
      search_indexes = [search_index_model], failures = no_failures,
      similarity_fn = ex_similarity\<rparr>"

text \<open>The caller's state while session A is active.\<close>

definition ex_session :: session_state where
  "ex_session = \<lparr>ss_session_id = Some ''A'', ss_transcripts = Some ex_transcripts,
                 ss_chat_history = Some [(''user'', ''q'')]\<rparr>"

text \<open>A collection whose next call of one operation raises.\<close>

definition fails_at :: "operation \<Rightarrow> exn \<Rightarrow> operation \<Rightarrow> exn option" where
  "fails_at failing e operation = (if operation = failing then Some e else None)"

section \<open>Facts about the store and the index step\<close>

lemma ensure_vector_index_documents:
  "documents (fst (ensure_vector_index c)) = documents c"
  by (auto simp: ensure_vector_index_def list_search_indexes_def create_search_index_def Let_def
           split: option.splits sum.splits if_splits)

lemma ensure_vector_index_no_error:
  "Error \<notin> set (levels (snd (ensure_vector_index c)))"
  by (auto simp: ensure_vector_index_def levels_def Let_def split: sum.splits)

lemma length_build_docs: "length (build_docs ts es sid) = min (length ts) (length es)"
  by (simp add: build_docs_def)

lemma build_docs_texts: "map doc_text (build_docs ts es sid) = take (length es) ts"
  by (simp add: build_docs_def map_fst_zip_take comp_def split_beta min_def)

lemma build_docs_embeddings: "map doc_embedding (build_docs ts es sid) = take (length ts) es"
  by (simp add: build_docs_def map_snd_zip_take comp_def split_beta min_def)

lemma build_docs_segments:
  "build_docs (map segment_text items) es sid =
     map (\<lambda>(item, embed).
            \<lparr>doc_text = speaker item @ '': '' @ item_text item,
             doc_embedding = embed,
             doc_session_id = Some sid\<rparr>)
         (zip items es)"
  by (simp add: build_docs_def zip_map1 split_beta segment_text_def)

lemma build_docs_empty: "build_docs ts es sid = [] \<longleftrightarrow> ts = [] \<or> es = []"
  by (cases ts; cases es) (simp_all add: build_docs_def)

lemma insert_many_succeeds:
  "insert_many docs c = Inr c1 \<longleftrightarrow>
     docs \<noteq> [] \<and> failures c InsertMany = None \<and> c1 = c\<lparr>documents := documents c @ docs\<rparr>"
  by (auto simp: insert_many_def split: option.splits)

text \<open>
  When the embedding call and the insert succeed, the function returns, whatever the
  index step does.
\<close>

lemma create_embeddings_and_store_inserted:
  assumes "vo (map segment_text speaker_transcripts) ''voyage-2'' ''document'' = Inr embeds"
    and "failures c InsertMany = None"
    and "build_docs (map segment_text speaker_transcripts) embeds new_uuid \<noteq> []"
  shows "create_embeddings_and_store speaker_transcripts vo c new_uuid =
           (let docs = build_docs (map segment_text speaker_transcripts) embeds new_uuid;
                c1 = c\<lparr>documents := documents c @ docs\<rparr>
            in (Inr (new_uuid, length docs), fst (ensure_vector_index c1),
                (Info, msg_inserted (length docs)) # snd (ensure_vector_index c1)))"
  using assms
  by (simp add: create_embeddings_and_store_def insert_many_def Let_def split_beta)

text \<open>With no document to insert, the driver's exception is shown and raised again.\<close>

lemma create_embeddings_and_store_nothing_to_insert:
  assumes "vo (map segment_text speaker_transcripts) ''voyage-2'' ''document'' = Inr embeds"
    and "build_docs (map segment_text speaker_transcripts) embeds new_uuid = []"
  shows "create_embeddings_and_store speaker_transcripts vo c new_uuid =
           (Inl (TypeError ''documents must be a non-empty list''), c,
            [(Error, msg_insert_error @ ''documents must be a non-empty list'')])"
  using assms
  by (simp add: create_embeddings_and_store_def insert_many_def Let_def)

section \<open>Facts about the search\<close>

lemma aggregate_unscoped:
  "aggregate c (search_pipeline q None) =
     (case failures c Aggregate of
        Some e \<Rightarrow> Inl e
      | None \<Rightarrow> Inr (map project (vector_search c ''vector_index'' q 5)))"
  by (simp add: aggregate_def search_pipeline_def split: option.splits)

lemma aggregate_empty_session:
  "aggregate c (search_pipeline q (Some [])) = aggregate c (search_pipeline q None)"
  by (simp add: search_pipeline_def)

lemma aggregate_scoped:
  assumes "sid \<noteq> []"
  shows "aggregate c (search_pipeline q (Some sid)) =
     (case failures c Aggregate of
        Some e \<Rightarrow> Inl e
      | None \<Rightarrow> Inr (map project
                  (filter (\<lambda>r. doc_session_id (fst r) = Some sid)
                     (vector_search c ''vector_index'' q 5))))"
  using assms
  by (simp add: aggregate_def search_pipeline_def list_insert_def split: option.splits)

lemma length_vector_search: "length (vector_search c index q limit) \<le> limit"
  by (simp add: vector_search_def)

lemma vector_search_no_documents:
  "documents c = [] \<Longrightarrow> vector_search c index q limit = []"
  by (simp add: vector_search_def)

lemma aggregate_no_documents:
  assumes "documents c = []"
  shows "aggregate c (search_pipeline q session_id) = Inr [] \<or>
         (\<exists>e. aggregate c (search_pipeline q session_id) = Inl e)"
proof (cases "\<exists>sid. session_id = Some sid \<and> sid \<noteq> []")
  case True
  then obtain sid where "session_id = Some sid" "sid \<noteq> []" by blast
  then show ?thesis
    using assms by (simp add: aggregate_scoped vector_search_no_documents split: option.splits)
next
  case False
  then have "aggregate c (search_pipeline q session_id) = aggregate c (search_pipeline q None)"
    by (cases session_id) (auto simp: aggregate_empty_session)
  then show ?thesis
    using assms by (simp add: aggregate_unscoped vector_search_no_documents split: option.splits)
qed

text \<open>The function once the query is embedded: the three ways it can go.\<close>

lemma search_store_fails:
  assumes "vo [query] ''voyage-2'' ''query'' = Inr (query_embed # rest)"
    and "aggregate c (search_pipeline query_embed session_id) = Inl e"
  shows "search_and_generate_response query vo c m session_id =
           (Inr (msg_search_error @ str_exn e, []), m)"
  using assms by (simp add: search_and_generate_response_def)

lemma search_finds_nothing:
  assumes "vo [query] ''voyage-2'' ''query'' = Inr (query_embed # rest)"
    and "aggregate c (search_pipeline query_embed session_id) = Inr []"
  shows "search_and_generate_response query vo c m session_id = (Inr (msg_not_found, []), m)"
  using assms by (simp add: search_and_generate_response_def)

lemma search_finds_some:
  assumes "vo [query] ''voyage-2'' ''query'' = Inr (query_embed # rest)"
    and "aggregate c (search_pipeline query_embed session_id) = Inr results"
    and "results \<noteq> []"
  shows "search_and_generate_response query vo c m session_id =
           (let prompt = make_prompt (join context_separator (map hit_text results)) query;
                m' = m\<lparr>prompts := prompts m @ [prompt]\<rparr>
            in case respond m prompt of
                 Inr answer \<Rightarrow> (Inr (answer, results), m')
               | Inl e \<Rightarrow> (Inr (msg_generate_error @ str_exn e, results), m'))"
  using assms
  by (simp add: search_and_generate_response_def generate_content_def Let_def split: sum.splits)

lemma search_results_from_store:
  assumes "search_and_generate_response query vo c m session_id = (Inr (answer, results), m')"
  shows "results = [] \<or>
         (\<exists>query_embed. aggregate c (search_pipeline query_embed session_id) = Inr results)"
  using assms
  by (auto simp: search_and_generate_response_def generate_content_def Let_def
           split: sum.splits list.splits if_splits)

text \<open>Evaluation of the example inputs.\<close>

lemmas store_defs = aggregate_def search_pipeline_def list_insert_def vector_search_def
  project_def insert_many_def list_search_indexes_def create_search_index_def delete_many_def
  drop_search_index_def search_index_model_def

lemmas ex_defs = ex_similarity_def ex_vo_def ex_vo_short_def ex_vo_none_def ex_vo_down_def ex_llm_def
  ex_llm_down_def no_failures_def ex_doc_def ex_transcripts_def ex_empty_def
  ex_two_sessions_def ex_crowded_def fails_at_def

lemma ex_query_embedding: "ex_vo [''q''] ''voyage-2'' ''query'' = Inr [1]"
  by (simp add: ex_vo_def)

lemma ex_two_sessions_unscoped:
  "aggregate ex_two_sessions (search_pipeline 1 None) =
     Inr [\<lparr>hit_text = ''Speaker A: hello'', hit_session_id = Some ''A'', hit_score = 0\<rparr>,
          \<lparr>hit_text = ''Speaker B: world'', hit_session_id = Some ''B'', hit_score = - 1\<rparr>]"
  by (simp add: store_defs ex_defs)

lemma ex_two_sessions_scoped:
  "aggregate ex_two_sessions (search_pipeline 1 (Some ''A'')) =
     Inr [\<lparr>hit_text = ''Speaker A: hello'', hit_session_id = Some ''A'', hit_score = 0\<rparr>]"
  by (simp add: store_defs ex_defs)

lemma ex_crowded_scoped: "aggregate ex_crowded (search_pipeline 1 (Some ''A'')) = Inr []"
  by (simp add: store_defs ex_defs)

section \<open>Session scoping of the search\<close>

text \<open>
  C1 (as stated in the specification): every search given a \<^verbatim>\<open>session_id\<close> returns only
  segments of that session. The test of line 139 is a truth test, so the empty string
  counts as no session: the search of two sessions' segments with the session id \<open>''''\<close>
  returns both segments, and neither carries the id \<open>''''\<close>.
\<close>

theorem empty_session_id_not_scoped:
  "search_and_generate_response ''q'' ex_vo ex_two_sessions ex_llm (Some '''') =
     (Inr (''an answer'',
           [\<lparr>hit_text = ''Speaker A: hello'', hit_session_id = Some ''A'', hit_score = 0\<rparr>,
            \<lparr>hit_text = ''Speaker B: world'', hit_session_id = Some ''B'', hit_score = - 1\<rparr>]),
      ex_llm\<lparr>prompts :=
        [make_prompt (''Speaker A: hello'' @ context_separator @ ''Speaker B: world'') ''q'']\<rparr>)"
  by (simp add: search_and_generate_response_def generate_content_def ex_query_embedding
        aggregate_empty_session ex_two_sessions_unscoped ex_llm_def)

text \<open>
  C1 (amended): for every search with a non-empty \<^verbatim>\<open>session_id\<close>, every segment in the
  returned result list carries that \<^verbatim>\<open>session_id\<close>; a search scoped to session A never
  returns a segment of another session B.
\<close>

theorem scoped_results_carry_session:
  assumes "sid \<noteq> []"
    and "search_and_generate_response query vo c m (Some sid) = (Inr (answer, results), m')"
  shows "\<forall>h \<in> set results. hit_session_id h = Some sid"
proof -
  from search_results_from_store [OF assms(2)]
  consider "results = []"
    | query_embed where "aggregate c (search_pipeline query_embed (Some sid)) = Inr results"
    by blast
  then show ?thesis
  proof cases
    case 1
    then show ?thesis by simp
  next
    case 2
    then show ?thesis
      using assms(1) by (auto simp: aggregate_scoped project_def split: option.splits)
  qed
qed

theorem scoped_results_carry_session_witness:
  "''A'' \<noteq> [] \<and>
   search_and_generate_response ''q'' ex_vo ex_two_sessions ex_llm (Some ''A'') =
     (Inr (''an answer'',
           [\<lparr>hit_text = ''Speaker A: hello'', hit_session_id = Some ''A'', hit_score = 0\<rparr>]),
      ex_llm\<lparr>prompts := [make_prompt ''Speaker A: hello'' ''q'']\<rparr>) \<and>
   hit_session_id \<lparr>hit_text = ''Speaker A: hello'', hit_session_id = Some ''A'',
                   hit_score = (0::int)\<rparr> = Some ''A''"
proof -
  have run: "search_and_generate_response ''q'' ex_vo ex_two_sessions ex_llm (Some ''A'') =
     (Inr (''an answer'',
           [\<lparr>hit_text = ''Speaker A: hello'', hit_session_id = Some ''A'', hit_score = 0\<rparr>]),
      ex_llm\<lparr>prompts := [make_prompt ''Speaker A: hello'' ''q'']\<rparr>)"
    by (simp add: search_and_generate_response_def generate_content_def ex_query_embedding
          ex_two_sessions_scoped ex_llm_def)
  have sid: "''A'' \<noteq> []" by simp
  show ?thesis
    using sid run scoped_results_carry_session [OF sid run] by simp
qed

text \<open>
  C2 (as stated in the specification): the session filter is applied before ranking and
  before the limit, as \<open>spec_search\<close> does. The program inserts the \<^verbatim>\<open>$match\<close> stage at
  position 1, behind \<^verbatim>\<open>$vectorSearch\<close> and its limit of 5. Where five segments of
  session B score better than the segment of session A, the search scoped to A returns
  nothing, while the search of the specification returns A's segment.
\<close>

theorem session_filter_is_not_pre_filter:
  "aggregate ex_crowded (search_pipeline 1 (Some ''A'')) = Inr [] \<and>
   spec_search ex_crowded 1 5 (Some ''A'') =
     [\<lparr>hit_text = ''a1'', hit_session_id = Some ''A'', hit_score = - 8\<rparr>]"
  by (simp add: store_defs spec_search_def ex_defs)

text \<open>
  C2 (amended): for every search with a non-empty \<^verbatim>\<open>session_id\<close>, the session filter is
  applied after similarity ranking and the limit of 5: the scoped search returns exactly
  those of the at most five results of the unscoped search that carry the session id, in
  the same order (and fails with the same exception when the unscoped search fails).
\<close>

theorem session_filter_after_limit:
  assumes "sid \<noteq> []"
  shows "case aggregate c (search_pipeline q None) of
           Inl e \<Rightarrow> aggregate c (search_pipeline q (Some sid)) = Inl e
         | Inr unscoped \<Rightarrow>
             length unscoped \<le> 5 \<and>
             aggregate c (search_pipeline q (Some sid)) =
               Inr (filter (\<lambda>h. hit_session_id h = Some sid) unscoped)"
  using assms length_vector_search [of c "''vector_index''" q 5]
  by (simp add: aggregate_scoped aggregate_unscoped filter_map comp_def project_def
           split: option.splits)

theorem session_filter_after_limit_witness:
  "''B'' \<noteq> [] \<and>
   aggregate ex_two_sessions (search_pipeline 1 (Some ''B'')) =
     Inr [\<lparr>hit_text = ''Speaker B: world'', hit_session_id = Some ''B'', hit_score = - 1\<rparr>]"
proof -
  have sid: "''B'' \<noteq> []" by simp
  show ?thesis
    using session_filter_after_limit [OF sid, of ex_two_sessions 1] ex_two_sessions_unscoped
    by simp
qed

section \<open>Ingestion\<close>

text \<open>
  C3: for every non-empty utterance sequence, when the embedding client returns one vector
  per text and the insert succeeds, ingestion returns the fresh session id and a count
  equal to the number of utterances, and the collection has gained, in the order of the
  utterances, one segment per utterance whose text is the speaker, a colon and a space,
  and the utterance text, each carrying the returned session id.
\<close>

theorem ingest_stores_every_utterance:
  assumes "speaker_transcripts \<noteq> []"
    and "vo (map segment_text speaker_transcripts) ''voyage-2'' ''document'' = Inr embeds"
    and "length embeds = length speaker_transcripts"
    and "failures c InsertMany = None"
  shows "\<exists>c' log.
           create_embeddings_and_store speaker_transcripts vo c new_uuid =
             (Inr (new_uuid, length speaker_transcripts), c', log) \<and>
           documents c' = documents c @
             map (\<lambda>(item, embed).
                    \<lparr>doc_text = speaker item @ '': '' @ item_text item,
                     doc_embedding = embed,
                     doc_session_id = Some new_uuid\<rparr>)
                 (zip speaker_transcripts embeds)"
proof -
  let ?sents = "map segment_text speaker_transcripts"
  have n: "length (build_docs ?sents embeds new_uuid) = length speaker_transcripts"
    using assms(3) by (simp add: length_build_docs)
  have some: "build_docs ?sents embeds new_uuid \<noteq> []"
    using assms(1) n by auto
  show ?thesis
    using create_embeddings_and_store_inserted
            [where vo = vo and embeds = embeds, OF assms(2) assms(4) some] n
    by (simp add: Let_def ensure_vector_index_documents build_docs_segments)
qed

theorem ingest_stores_every_utterance_witness:
  "ex_transcripts \<noteq> [] \<and>
   (\<exists>c' log.
      create_embeddings_and_store ex_transcripts ex_vo ex_empty ''s1'' =
        (Inr (''s1'', 2), c', log) \<and>
      documents c' =
        [\<lparr>doc_text = ''Speaker A: hello'', doc_embedding = 16, doc_session_id = Some ''s1''\<rparr>,
         \<lparr>doc_text = ''Speaker B: world'', doc_embedding = 16, doc_session_id = Some ''s1''\<rparr>])"
proof -
  have h1: "ex_transcripts \<noteq> []"
    by (simp add: ex_transcripts_def)
  have h2: "ex_vo (map segment_text ex_transcripts) ''voyage-2'' ''document'' = Inr [16, 16]"
    by (simp add: ex_vo_def ex_transcripts_def segment_text_def)
  have h3: "length [16, 16 :: int] = length ex_transcripts"
    by (simp add: ex_transcripts_def)
  have h4: "failures ex_empty InsertMany = None"
    by (simp add: ex_empty_def no_failures_def)
  show ?thesis
    using h1 ingest_stores_every_utterance
            [where vo = ex_vo and embeds = "[16, 16]" and new_uuid = "''s1''", OF h1 h2 h3 h4]
    by (simp add: ex_transcripts_def ex_empty_def numeral_2_eq_2)
qed

text \<open>
  C10 (as stated): for every ingestion the count returned is the smaller of the number
  of texts and the number of vectors, and fewer vectors than texts never cause an error.
  When the embedding client returns no vector for two texts, no document is built, the
  driver refuses the empty list, and lines 75-77 show the error and raise it again:
  nothing is returned and nothing is stored.
\<close>

theorem zero_vectors_fail_the_ingestion:
  "create_embeddings_and_store ex_transcripts ex_vo_none ex_empty ''s1'' =
     (Inl (TypeError ''documents must be a non-empty list''), ex_empty,
      [(Error, msg_insert_error @ ''documents must be a non-empty list'')])"
  by (simp add: create_embeddings_and_store_def insert_many_def build_docs_def ex_vo_none_def
        Let_def)

text \<open>
  C10 (amended): the segments are built by pairing texts and vectors by position. For
  every ingestion with at least one text and at least one returned vector whose insert
  does not fail, the returned count is the number of segments inserted, the smaller of
  the number of texts and the number of vectors: with fewer vectors than texts the
  trailing texts are left out, nothing is raised and no error is shown. When there is no
  text or no vector, the empty document list is refused by \<^verbatim>\<open>insert_many\<close>: the error
  is shown and raised again, and the collection is unchanged.
\<close>

theorem ingest_count_is_min_of_lengths:
  assumes "vo (map segment_text speaker_transcripts) ''voyage-2'' ''document'' = Inr embeds"
    and "failures c InsertMany = None"
  shows "(speaker_transcripts \<noteq> [] \<and> embeds \<noteq> [] \<longrightarrow>
           (\<exists>c' log new.
              create_embeddings_and_store speaker_transcripts vo c new_uuid =
                (Inr (new_uuid, min (length speaker_transcripts) (length embeds)), c', log) \<and>
              documents c' = documents c @ new \<and>
              new = map (\<lambda>(transcript, embed).
                           \<lparr>doc_text = transcript, doc_embedding = embed,
                            doc_session_id = Some new_uuid\<rparr>)
                        (zip (map segment_text speaker_transcripts) embeds) \<and>
              length new = min (length speaker_transcripts) (length embeds) \<and>
              map doc_text new = take (length embeds) (map segment_text speaker_transcripts) \<and>
              map doc_embedding new = take (length speaker_transcripts) embeds \<and>
              Error \<notin> set (levels log))) \<and>
         (speaker_transcripts = [] \<or> embeds = [] \<longrightarrow>
            create_embeddings_and_store speaker_transcripts vo c new_uuid =
              (Inl (TypeError ''documents must be a non-empty list''), c,
               [(Error, msg_insert_error @ ''documents must be a non-empty list'')]))"
proof (intro conjI impI)
  assume nonempty: "speaker_transcripts \<noteq> [] \<and> embeds \<noteq> []"
  let ?new = "build_docs (map segment_text speaker_transcripts) embeds new_uuid"
  let ?c1 = "c\<lparr>documents := documents c @ ?new\<rparr>"
  have some: "?new \<noteq> []"
    using nonempty by (simp add: build_docs_empty)
  have run: "create_embeddings_and_store speaker_transcripts vo c new_uuid =
      (Inr (new_uuid, min (length speaker_transcripts) (length embeds)),
       fst (ensure_vector_index ?c1),
       (Info, msg_inserted (length ?new)) # snd (ensure_vector_index ?c1))"
    using create_embeddings_and_store_inserted
            [where vo = vo and embeds = embeds, OF assms(1) assms(2) some]
    by (simp add: Let_def length_build_docs)
  have docs: "documents (fst (ensure_vector_index ?c1)) = documents c @ ?new"
    by (simp add: ensure_vector_index_documents)
  have len: "length ?new = min (length speaker_transcripts) (length embeds)"
    by (simp add: length_build_docs)
  have texts: "map doc_text ?new = take (length embeds) (map segment_text speaker_transcripts)"
    by (rule build_docs_texts)
  have vecs: "map doc_embedding ?new = take (length speaker_transcripts) embeds"
    using build_docs_embeddings [of "map segment_text speaker_transcripts" embeds new_uuid]
    by simp
  have log: "Error \<notin> set (levels ((Info, msg_inserted (length ?new)) # snd (ensure_vector_index ?c1)))"
    using ensure_vector_index_no_error [of ?c1] by (simp add: levels_def)
  have new: "?new = map (\<lambda>(transcript, embed).
                        \<lparr>doc_text = transcript, doc_embedding = embed,
                         doc_session_id = Some new_uuid\<rparr>)
                     (zip (map segment_text speaker_transcripts) embeds)"
    by (simp add: build_docs_def)
  from run docs new len texts vecs log
  show "\<exists>c' log new.
              create_embeddings_and_store speaker_transcripts vo c new_uuid =
                (Inr (new_uuid, min (length speaker_transcripts) (length embeds)), c', log) \<and>
              documents c' = documents c @ new \<and>
              new = map (\<lambda>(transcript, embed).
                           \<lparr>doc_text = transcript, doc_embedding = embed,
                            doc_session_id = Some new_uuid\<rparr>)
                        (zip (map segment_text speaker_transcripts) embeds) \<and>
              length new = min (length speaker_transcripts) (length embeds) \<and>
              map doc_text new = take (length embeds) (map segment_text speaker_transcripts) \<and>
              map doc_embedding new = take (length speaker_transcripts) embeds \<and>
              Error \<notin> set (levels log)"
    by blast
next
  assume "speaker_transcripts = [] \<or> embeds = []"
  then have none: "build_docs (map segment_text speaker_transcripts) embeds new_uuid = []"
    by (simp add: build_docs_empty)
  show "create_embeddings_and_store speaker_transcripts vo c new_uuid =
          (Inl (TypeError ''documents must be a non-empty list''), c,
           [(Error, msg_insert_error @ ''documents must be a non-empty list'')])"
    using create_embeddings_and_store_nothing_to_insert
            [where vo = vo and embeds = embeds, OF assms(1) none] .
qed

theorem ingest_count_is_min_of_lengths_witness:
  "\<exists>c' log new.
     create_embeddings_and_store ex_transcripts ex_vo_short ex_empty ''s1'' =
       (Inr (''s1'', 1), c', log) \<and>
     documents c' = new \<and> length new = 1 \<and>
     map doc_text new = [''Speaker A: hello''] \<and>
     map doc_embedding new = [16] \<and>
     Error \<notin> set (levels log)"
proof -
  have h1: "ex_vo_short (map segment_text ex_transcripts) ''voyage-2'' ''document'' = Inr [16]"
    by (simp add: ex_vo_short_def ex_transcripts_def segment_text_def)
  have h2: "failures ex_empty InsertMany = None"
    by (simp add: ex_empty_def no_failures_def)
  have h3: "ex_transcripts \<noteq> [] \<and> [16 :: int] \<noteq> []"
    by (simp add: ex_transcripts_def)
  show ?thesis
    using ingest_count_is_min_of_lengths
            [where vo = ex_vo_short and embeds = "[16]" and new_uuid = "''s1''", OF h1 h2] h3
    by (auto simp: ex_transcripts_def ex_empty_def segment_text_def)
qed

text \<open>
  C8: when the embedding call succeeds, the insert of the segments succeeds (there is a
  segment to insert and \<^verbatim>\<open>insert_many\<close> does not raise) and the index step fails (listing the
  indexes raises, or there is no index yet and creating it raises), ingestion still returns
  the session id and the count; the inserted segments are in the collection; the failure
  is shown as a warning, and no error is shown.
\<close>

theorem index_failure_is_only_a_warning:
  assumes "vo (map segment_text speaker_transcripts) ''voyage-2'' ''document'' = Inr embeds"
    and "insert_many (build_docs (map segment_text speaker_transcripts) embeds new_uuid) c = Inr c1"
    and "failures c ListSearchIndexes = Some e \<or>
         (failures c ListSearchIndexes = None \<and>
          \<not> list_ex (\<lambda>idx. idx_name idx = ''vector_index'') (search_indexes c) \<and>
          failures c CreateSearchIndex = Some e)"
  shows "\<exists>c' log.
           create_embeddings_and_store speaker_transcripts vo c new_uuid =
             (Inr (new_uuid, length (build_docs (map segment_text speaker_transcripts) embeds new_uuid)),
              c', log) \<and>
           c' = c1 \<and>
           documents c' =
             documents c @ build_docs (map segment_text speaker_transcripts) embeds new_uuid \<and>
           search_indexes c' = search_indexes c \<and>
           (Warning, msg_index_error @ str_exn e) \<in> set log \<and>
           Error \<notin> set (levels log)"
proof -
  let ?new = "build_docs (map segment_text speaker_transcripts) embeds new_uuid"
  let ?c1 = "c\<lparr>documents := documents c @ ?new\<rparr>"
  have inserted: "?new \<noteq> []" "failures c InsertMany = None" "c1 = ?c1"
    using assms(2) by (simp_all add: insert_many_succeeds)
  have step: "ensure_vector_index ?c1 =
      (?c1, [(Warning, msg_index_error @ str_exn e), (Info, msg_data_saved)])"
    using assms(3)
    by (auto simp: ensure_vector_index_def list_search_indexes_def create_search_index_def)
  show ?thesis
    using create_embeddings_and_store_inserted
            [where vo = vo and embeds = embeds, OF assms(1) inserted(2) inserted(1)]
          step inserted(3)
    by (simp add: Let_def levels_def)
qed

theorem index_failure_is_only_a_warning_witness:
  "\<exists>c' log.
     create_embeddings_and_store ex_transcripts ex_vo
       (ex_empty\<lparr>failures := fails_at ListSearchIndexes (RemoteError ''timeout'')\<rparr>) ''s1'' =
       (Inr (''s1'', 2), c', log) \<and>
     documents c' =
       [ex_doc ''Speaker A: hello'' 16 ''s1'', ex_doc ''Speaker B: world'' 16 ''s1''] \<and>
     search_indexes c' = [] \<and>
     (Warning, msg_index_error @ ''timeout'') \<in> set log \<and>
     Error \<notin> set (levels log)"
proof -
  let ?c = "ex_empty\<lparr>failures := fails_at ListSearchIndexes (RemoteError ''timeout'')\<rparr>"
  have h1: "ex_vo (map segment_text ex_transcripts) ''voyage-2'' ''document'' = Inr [16, 16]"
    by (simp add: ex_vo_def ex_transcripts_def segment_text_def)
  have docs: "build_docs (map segment_text ex_transcripts) [16, 16] ''s1'' =
      [ex_doc ''Speaker A: hello'' (16::int) ''s1'', ex_doc ''Speaker B: world'' 16 ''s1'']"
    by (simp add: build_docs_def ex_transcripts_def segment_text_def ex_doc_def)
  have h2: "insert_many (build_docs (map segment_text ex_transcripts) [16, 16] ''s1'') ?c =
      Inr (?c\<lparr>documents :=
             [ex_doc ''Speaker A: hello'' 16 ''s1'', ex_doc ''Speaker B: world'' 16 ''s1'']\<rparr>)"
    by (simp add: docs insert_many_def fails_at_def ex_empty_def)
  have h3: "failures ?c ListSearchIndexes = Some (RemoteError ''timeout'') \<or>
         (failures ?c ListSearchIndexes = None \<and>
          \<not> list_ex (\<lambda>idx. idx_name idx = ''vector_index'') (search_indexes ?c) \<and>
          failures ?c CreateSearchIndex = Some (RemoteError ''timeout''))"
    by (simp add: fails_at_def)
  show ?thesis
    using index_failure_is_only_a_warning
            [where vo = ex_vo and embeds = "[16, 16]" and new_uuid = "''s1''", OF h1 h2 h3]
    by (auto simp: docs ex_empty_def numeral_2_eq_2)
qed

section \<open>The index step\<close>

text \<open>
  C7: the index step is idempotent. When listing and creating do not fail and the
  collection has at most one index named \<^verbatim>\<open>vector_index\<close>, then after the first run there
  is exactly one such index, and a second run leaves the collection as it is and only
  reports that the index exists: no duplicate-index error is raised, since the names of
  the existing indexes are checked before an index is created.
\<close>

theorem ensure_vector_index_idempotent:
  assumes "failures c ListSearchIndexes = None"
    and "failures c CreateSearchIndex = None"
    and "length (filter (\<lambda>idx. idx_name idx = ''vector_index'') (search_indexes c)) \<le> 1"
  shows "length (filter (\<lambda>idx. idx_name idx = ''vector_index'')
                   (search_indexes (fst (ensure_vector_index c)))) = 1 \<and>
         ensure_vector_index (fst (ensure_vector_index c)) =
           (fst (ensure_vector_index c), [(Info, msg_index_exists)]) \<and>
         Warning \<notin> set (levels (snd (ensure_vector_index c)))"
proof (cases "list_ex (\<lambda>idx. idx_name idx = ''vector_index'') (search_indexes c)")
  case True
  then have first: "ensure_vector_index c = (c, [(Info, msg_index_exists)])"
    using assms(1) by (simp add: ensure_vector_index_def list_search_indexes_def)
  have "filter (\<lambda>idx. idx_name idx = ''vector_index'') (search_indexes c) \<noteq> []"
    using True by (simp add: list_ex_iff filter_empty_conv)
  then have "length (filter (\<lambda>idx. idx_name idx = ''vector_index'') (search_indexes c)) = 1"
    using assms(3) by (cases "filter (\<lambda>idx. idx_name idx = ''vector_index'') (search_indexes c)") auto
  then show ?thesis
    using first by (simp add: levels_def)
next
  case False
  then have none: "filter (\<lambda>idx. idx_name idx = ''vector_index'') (search_indexes c) = []"
    by (simp add: list_ex_iff filter_empty_conv)
  have absent: "''vector_index'' \<notin> idx_name ` set (search_indexes c)"
    using False by (auto simp: list_ex_iff)
  let ?c1 = "c\<lparr>search_indexes := search_indexes c @ [search_index_model]\<rparr>"
  have first: "ensure_vector_index c = (?c1, [(Info, msg_index_created)])"
    using False assms(1,2) absent
    by (simp add: ensure_vector_index_def list_search_indexes_def create_search_index_def
          search_index_model_def)
  have second: "ensure_vector_index ?c1 = (?c1, [(Info, msg_index_exists)])"
    using assms(1) by (simp add: ensure_vector_index_def list_search_indexes_def search_index_model_def)
  show ?thesis
    using first second none by (simp add: levels_def search_index_model_def)
qed

theorem ensure_vector_index_idempotent_witness:
  "search_indexes (fst (ensure_vector_index ex_empty)) = [search_index_model] \<and>
   ensure_vector_index (fst (ensure_vector_index ex_empty)) =
     (ex_empty\<lparr>search_indexes := [search_index_model]\<rparr>, [(Info, msg_index_exists)])"
proof -
  have h1: "failures ex_empty ListSearchIndexes = None"
    by (simp add: ex_empty_def no_failures_def)
  have h2: "failures ex_empty CreateSearchIndex = None"
    by (simp add: ex_empty_def no_failures_def)
  have h3: "length (filter (\<lambda>idx. idx_name idx = ''vector_index'') (search_indexes ex_empty)) \<le> 1"
    by (simp add: ex_empty_def)
  have first: "fst (ensure_vector_index ex_empty) = ex_empty\<lparr>search_indexes := [search_index_model]\<rparr>"
    by (simp add: ensure_vector_index_def list_search_indexes_def create_search_index_def
          ex_empty_def no_failures_def)
  show ?thesis
    using ensure_vector_index_idempotent [OF h1 h2 h3] first
    by (simp add: ex_empty_def)
qed

section \<open>Error handling of the query\<close>

text \<open>
  C4 (as stated in the specification): a failure of any remote call of the query
  (embedding, store search, synthesis) yields an answer with empty citations and never an
  exception. The embedding call of lines 113-117 stands outside every \<^verbatim>\<open>try\<close>: when the
  embedding client raises, the exception leaves the function. And when the synthesis
  fails after a successful search, the citations returned are the search results, not an
  empty list.
\<close>

theorem embedding_failure_escapes:
  "search_and_generate_response ''q'' ex_vo_down ex_two_sessions ex_llm (Some ''A'') =
     (Inl (RemoteError ''embedding service unreachable''), ex_llm) \<and>
   search_and_generate_response ''q'' ex_vo ex_two_sessions ex_llm_down (Some ''A'') =
     (Inr (msg_generate_error @ ''model unavailable'',
           [\<lparr>hit_text = ''Speaker A: hello'', hit_session_id = Some ''A'', hit_score = 0\<rparr>]),
      ex_llm_down\<lparr>prompts := [make_prompt ''Speaker A: hello'' ''q'']\<rparr>)"
  by (simp add: search_and_generate_response_def generate_content_def ex_query_embedding
        ex_two_sessions_scoped ex_llm_down_def ex_vo_down_def)

text \<open>
  C4 (amended): for every query whose embedding succeeds, the query returns an
  (answer, citations) pair and no exception of the store search or of the synthesis
  leaves it: when the store search fails, the answer is the search-error message and the
  citations are empty; when the synthesis fails, the answer is the generation-error
  message and the citations are the search results.
\<close>

theorem search_and_synthesis_failures_are_answers:
  assumes "vo [query] ''voyage-2'' ''query'' = Inr (query_embed # rest)"
  shows "\<exists>answer citations m'.
           search_and_generate_response query vo c m session_id = (Inr (answer, citations), m') \<and>
           (\<forall>e. aggregate c (search_pipeline query_embed session_id) = Inl e \<longrightarrow>
                  answer = msg_search_error @ str_exn e \<and> citations = [] \<and> m' = m) \<and>
           (\<forall>results e.
              aggregate c (search_pipeline query_embed session_id) = Inr results \<and>
              results \<noteq> [] \<and>
              respond m (make_prompt (join context_separator (map hit_text results)) query) = Inl e \<longrightarrow>
                  answer = msg_generate_error @ str_exn e \<and> citations = results)"
proof (cases "aggregate c (search_pipeline query_embed session_id)")
  case (Inl e)
  then show ?thesis
    using search_store_fails [where vo = vo, OF assms Inl] by simp
next
  case (Inr results)
  show ?thesis
  proof (cases "results = []")
    case True
    with Inr have none: "aggregate c (search_pipeline query_embed session_id) = Inr []"
      by simp
    show ?thesis
      using search_finds_nothing [where vo = vo and m = m, OF assms none] none by simp
  next
    case False
    then show ?thesis
      using search_finds_some [where vo = vo and m = m, OF assms Inr False] Inr
      by (auto simp: Let_def split: sum.splits)
  qed
qed

theorem search_and_synthesis_failures_are_answers_witness:
  "search_and_generate_response ''q'' ex_vo
     (ex_two_sessions\<lparr>failures := fails_at Aggregate (RemoteError ''timeout'')\<rparr>) ex_llm
     (Some ''A'') =
     (Inr (msg_search_error @ ''timeout'', []), ex_llm)"
proof -
  let ?c = "ex_two_sessions\<lparr>failures := fails_at Aggregate (RemoteError ''timeout'')\<rparr>"
  have fails: "aggregate ?c (search_pipeline 1 (Some ''A'')) = Inl (RemoteError ''timeout'')"
    by (simp add: aggregate_def fails_at_def)
  show ?thesis
    using search_and_synthesis_failures_are_answers
            [where vo = ex_vo and c = ?c and m = ex_llm and session_id = "Some ''A''",
             OF ex_query_embedding]
          fails
    by auto
qed

text \<open>
  C5: when the embedding and the search succeed with a non-empty result list and the
  synthesis call fails, the query returns the generation-error message as the answer
  together with the search results as citations; no exception leaves it. The prompt was
  sent to the model.
\<close>

theorem synthesis_failure_keeps_citations:
  assumes "vo [query] ''voyage-2'' ''query'' = Inr (query_embed # rest)"
    and "aggregate c (search_pipeline query_embed session_id) = Inr results"
    and "results \<noteq> []"
    and "respond m (make_prompt (join context_separator (map hit_text results)) query) = Inl e"
  shows "search_and_generate_response query vo c m session_id =
           (Inr (msg_generate_error @ str_exn e, results),
            m\<lparr>prompts := prompts m @
                 [make_prompt (join context_separator (map hit_text results)) query]\<rparr>)"
  using search_finds_some [where vo = vo and m = m, OF assms(1) assms(2) assms(3)] assms(4)
  by (simp add: Let_def)

theorem synthesis_failure_keeps_citations_witness:
  "search_and_generate_response ''q'' ex_vo ex_two_sessions ex_llm_down None =
     (Inr (msg_generate_error @ ''model unavailable'',
           [\<lparr>hit_text = ''Speaker A: hello'', hit_session_id = Some ''A'', hit_score = 0\<rparr>,
            \<lparr>hit_text = ''Speaker B: world'', hit_session_id = Some ''B'', hit_score = - 1\<rparr>]),
      ex_llm_down\<lparr>prompts :=
        [make_prompt (''Speaker A: hello'' @ context_separator @ ''Speaker B: world'') ''q'']\<rparr>)"
proof -
  have h3: "[\<lparr>hit_text = ''Speaker A: hello'', hit_session_id = Some ''A'', hit_score = 0::int\<rparr>,
             \<lparr>hit_text = ''Speaker B: world'', hit_session_id = Some ''B'', hit_score = - 1\<rparr>] \<noteq> []"
    by simp
  have h4: "respond ex_llm_down
              (make_prompt (join context_separator (map hit_text
                 [\<lparr>hit_text = ''Speaker A: hello'', hit_session_id = Some ''A'', hit_score = 0::int\<rparr>,
                  \<lparr>hit_text = ''Speaker B: world'', hit_session_id = Some ''B'', hit_score = - 1\<rparr>]))
                 ''q'') = Inl (RemoteError ''model unavailable'')"
    by (simp add: ex_llm_down_def)
  show ?thesis
    using synthesis_failure_keeps_citations
            [where vo = ex_vo and m = ex_llm_down, OF ex_query_embedding ex_two_sessions_unscoped h3 h4]
    by (simp add: ex_llm_down_def)
qed

text \<open>
  C6: when the embedding succeeds and the store search returns no result, the query
  returns the fixed not-found answer with an empty citation list, and the model handle is
  as before: no prompt has been sent to the model.
\<close>

theorem empty_results_bypass_the_model:
  assumes "vo [query] ''voyage-2'' ''query'' = Inr (query_embed # rest)"
    and "aggregate c (search_pipeline query_embed session_id) = Inr []"
  shows "search_and_generate_response query vo c m session_id = (Inr (msg_not_found, []), m) \<and>
         prompts (snd (search_and_generate_response query vo c m session_id)) = prompts m"
  using search_finds_nothing [where vo = vo, OF assms] by simp

theorem empty_results_bypass_the_model_witness:
  "search_and_generate_response ''q'' ex_vo ex_crowded ex_llm (Some ''A'') =
     (Inr (msg_not_found, []), ex_llm) \<and>
   prompts (snd (search_and_generate_response ''q'' ex_vo ex_crowded ex_llm (Some ''A''))) = []"
  using empty_results_bypass_the_model
          [where vo = ex_vo and m = ex_llm, OF ex_query_embedding ex_crowded_scoped]
  by (simp add: ex_llm_def)

section \<open>Reset\<close>

lemma search_without_documents:
  assumes "vo [query] ''voyage-2'' ''query'' = Inr (query_embed # rest)"
    and "documents c = []"
  shows "\<exists>answer.
           search_and_generate_response query vo c m session_id = (Inr (answer, []), m) \<and>
           (answer = msg_not_found \<or> (\<exists>e. answer = msg_search_error @ str_exn e))"
proof (cases "aggregate c (search_pipeline query_embed session_id)")
  case (Inl e)
  then show ?thesis
    using search_store_fails [where vo = vo and m = m, OF assms(1) Inl] by auto
next
  case (Inr results)
  then have none: "aggregate c (search_pipeline query_embed session_id) = Inr []"
    using aggregate_no_documents [OF assms(2), of query_embed session_id] by auto
  show ?thesis
    using search_finds_nothing [where vo = vo and m = m, OF assms(1) none] by simp
qed

lemma main_reset_deleted:
  assumes "failures c DeleteMany = None"
  shows "main_reset c ss =
           (case failures c DropSearchIndex of
              None \<Rightarrow>
                (c\<lparr>documents := [],
                   search_indexes := filter (\<lambda>idx. idx_name idx \<noteq> ''vector_index'') (search_indexes c)\<rparr>,
                 ss\<lparr>ss_session_id := None, ss_transcripts := None, ss_chat_history := None\<rparr>,
                 [(Info, msg_index_dropped), (Success, msg_cleaned)])
            | Some e \<Rightarrow>
                (c\<lparr>documents := []\<rparr>,
                 ss\<lparr>ss_session_id := None, ss_transcripts := None, ss_chat_history := None\<rparr>,
                 [(Info, msg_index_absent), (Success, msg_cleaned)]))"
  using assms
  by (simp add: main_reset_def delete_many_def drop_search_index_def split: option.splits)

text \<open>
  C9: when \<^verbatim>\<open>delete_many\<close> succeeds, the reset leaves no segment in the collection and
  shows no error, whether or not dropping the index raises; when the drop does not raise,
  no index named \<^verbatim>\<open>vector_index\<close> is left, and when there was no such index the indexes
  are as before. Every search after the reset whose query embedding succeeds, with any
  scope and whatever the store then does, returns an empty result list, with the
  not-found answer or the search-error answer, and never asks the model.
\<close>

theorem reset_leaves_nothing_to_find:
  assumes "failures c DeleteMany = None"
  shows "\<exists>c' log.
           main_reset c ss =
             (c', ss\<lparr>ss_session_id := None, ss_transcripts := None, ss_chat_history := None\<rparr>, log) \<and>
           documents c' = [] \<and>
           Error \<notin> set (levels log) \<and>
           (failures c DropSearchIndex = None \<longrightarrow>
              ''vector_index'' \<notin> set (map idx_name (search_indexes c'))) \<and>
           (''vector_index'' \<notin> set (map idx_name (search_indexes c)) \<longrightarrow>
              search_indexes c' = search_indexes c) \<and>
           (\<forall>fs query vo m session_id query_embed rest.
              vo [query] ''voyage-2'' ''query'' = Inr (query_embed # rest) \<longrightarrow>
              (\<exists>answer.
                 search_and_generate_response query vo (c'\<lparr>failures := fs\<rparr>) m session_id =
                   (Inr (answer, []), m) \<and>
                 (answer = msg_not_found \<or> (\<exists>e. answer = msg_search_error @ str_exn e))))"
proof -
  let ?ss' = "ss\<lparr>ss_session_id := None, ss_transcripts := None, ss_chat_history := None\<rparr>"
  have search: "\<exists>answer.
      search_and_generate_response query vo (c'\<lparr>failures := fs\<rparr>) m session_id =
        (Inr (answer, []), m) \<and>
      (answer = msg_not_found \<or> (\<exists>e. answer = msg_search_error @ str_exn e))"
    if "vo [query] ''voyage-2'' ''query'' = Inr (query_embed # rest)" and "documents c' = []"
    for fs query and vo :: "'a embedder" and m session_id query_embed rest
      and c' :: "('a, 'b) collection"
    using search_without_documents [where vo = vo and c = "c'\<lparr>failures := fs\<rparr>", OF that(1)] that(2)
    by simp
  show ?thesis
  proof (cases "failures c DropSearchIndex")
    case None
    let ?c' = "c\<lparr>documents := [],
                  search_indexes := filter (\<lambda>idx. idx_name idx \<noteq> ''vector_index'') (search_indexes c)\<rparr>"
    let ?log = "[(Info, msg_index_dropped), (Success, msg_cleaned)]"
    have run: "main_reset c ss = (?c', ?ss', ?log)"
      using main_reset_deleted [OF assms, of ss] None by simp
    have docs: "documents ?c' = []"
      by simp
    have log: "Error \<notin> set (levels ?log)"
      by (simp add: levels_def)
    have dropped: "failures c DropSearchIndex = None \<longrightarrow>
                    ''vector_index'' \<notin> set (map idx_name (search_indexes ?c'))"
      by auto
    have absent: "''vector_index'' \<notin> set (map idx_name (search_indexes c)) \<longrightarrow>
                    search_indexes ?c' = search_indexes c"
      by (force simp: filter_id_conv image_iff)
    have search': "\<forall>fs query vo m session_id query_embed rest.
        vo [query] ''voyage-2'' ''query'' = Inr (query_embed # rest) \<longrightarrow>
        (\<exists>answer.
           search_and_generate_response query vo (?c'\<lparr>failures := fs\<rparr>) m session_id =
             (Inr (answer, []), m) \<and>
           (answer = msg_not_found \<or> (\<exists>e. answer = msg_search_error @ str_exn e)))"
      using search [OF _ docs] by (intro allI impI)
    from run docs log dropped absent search' show ?thesis
      by (intro exI [of _ ?c'] exI [of _ ?log] conjI)
  next
    case (Some e)
    let ?c' = "c\<lparr>documents := []\<rparr>"
    let ?log = "[(Info, msg_index_absent), (Success, msg_cleaned)]"
    have run: "main_reset c ss = (?c', ?ss', ?log)"
      using main_reset_deleted [OF assms, of ss] Some by simp
    have docs: "documents ?c' = []"
      by simp
    have log: "Error \<notin> set (levels ?log)"
      by (simp add: levels_def)
    have dropped: "failures c DropSearchIndex = None \<longrightarrow>
                    ''vector_index'' \<notin> set (map idx_name (search_indexes ?c'))"
      using Some by simp
    have absent: "''vector_index'' \<notin> set (map idx_name (search_indexes c)) \<longrightarrow>
                    search_indexes ?c' = search_indexes c"
      by simp
    have search': "\<forall>fs query vo m session_id query_embed rest.
        vo [query] ''voyage-2'' ''query'' = Inr (query_embed # rest) \<longrightarrow>
        (\<exists>answer.
           search_and_generate_response query vo (?c'\<lparr>failures := fs\<rparr>) m session_id =
             (Inr (answer, []), m) \<and>
           (answer = msg_not_found \<or> (\<exists>e. answer = msg_search_error @ str_exn e)))"
      using search [OF _ docs] by (intro allI impI)
    from run docs log dropped absent search' show ?thesis
      by (intro exI [of _ ?c'] exI [of _ ?log] conjI)
  qed
qed

theorem reset_leaves_nothing_to_find_witness:
  "main_reset ex_two_sessions ex_session =
     (ex_two_sessions\<lparr>documents := [], search_indexes := []\<rparr>,
      \<lparr>ss_session_id = None, ss_transcripts = None, ss_chat_history = None\<rparr>,
      [(Info, msg_index_dropped), (Success, msg_cleaned)]) \<and>
   search_and_generate_response ''q'' ex_vo
     (ex_two_sessions\<lparr>documents := [], search_indexes := []\<rparr>) ex_llm (Some ''A'') =
     (Inr (msg_not_found, []), ex_llm)"
proof -
  have h: "failures ex_two_sessions DeleteMany = None"
    by (simp add: ex_two_sessions_def no_failures_def)
  have run: "main_reset ex_two_sessions ex_session =
     (ex_two_sessions\<lparr>documents := [], search_indexes := []\<rparr>,
      \<lparr>ss_session_id = None, ss_transcripts = None, ss_chat_history = None\<rparr>,
      [(Info, msg_index_dropped), (Success, msg_cleaned)])"
    by (simp add: main_reset_def delete_many_def drop_search_index_def ex_two_sessions_def
          no_failures_def search_index_model_def ex_session_def)
  have search: "search_and_generate_response ''q'' ex_vo
     (ex_two_sessions\<lparr>documents := [], search_indexes := []\<rparr>) ex_llm (Some ''A'') =
     (Inr (msg_not_found, []), ex_llm)"
    by (simp add: search_and_generate_response_def ex_query_embedding store_defs
          ex_two_sessions_def no_failures_def)
  from reset_leaves_nothing_to_find [OF h, of ex_session] run search show ?thesis
    by simp
qed

end
